theory Spec2Isabelle
  imports Main
begin

section \<open>Abstract syntax of notebook cells\<close>

text \<open>
  The repository consists of two Jupyter notebooks. A notebook is the list of its cells in
  the order of the \<^verbatim>\<open>cells\<close> array of the file, which is the order in which the cells run.
  A markdown cell carries no code; a code cell carries its statements. Every cell is tagged
  with the \<^verbatim>\<open>id\<close> of its metadata (empty where the file gives none).

  Expressions and statements are the Python and IPython forms the cells are written in.
  Numeric literals keep their source text. A call keeps its positional arguments and its
  keyword arguments apart, in source order. The statement type also has the compound and
  asynchronous forms of Python whose presence in a cell the specification speaks about
  (\<^verbatim>\<open>try\<close>, \<^verbatim>\<open>if\<close>, \<^verbatim>\<open>for\<close>, \<^verbatim>\<open>while\<close>, \<^verbatim>\<open>with\<close>, \<^verbatim>\<open>async def\<close>,
  \<^verbatim>\<open>await\<close>, \<^verbatim>\<open>yield\<close>).
\<close>

datatype expr =
    Name string
  | Num string
  | Str string
  | ListE "expr list"
  | Attr expr string
  | Subscript expr expr
  | BinOp expr string expr
  | Call expr "expr list" "(string \<times> expr) list"
  | Await expr
  | Yield expr

datatype stmt =
    Comment string
  | Shell string
  | Magic string string
  | Import string string
  | ImportFrom string "string list"
  | Assign string expr
  | ExprStmt expr
  | FunctionDef string "string list" "stmt list"
  | AsyncDef string "string list" "stmt list"
  | Return expr
  | If expr "stmt list" "stmt list"
  | For string expr "stmt list"
  | While expr "stmt list"
  | With expr "stmt list"
  | Try "stmt list" "stmt list"

datatype cell = Markdown string | Code string "stmt list"

type_synonym notebook = "cell list"

text \<open>
  \<^item> \<open>Comment\<close> is a \<^verbatim>\<open>#\<close> line, kept with its text. A comment that ends a code line is
    written as a \<open>Comment\<close> right after the statement of that line.
  \<^item> \<open>Shell t\<close> is the IPython shell escape \<^verbatim>\<open>!t\<close>, \<open>Magic m t\<close> the line magic \<^verbatim>\<open>%m t\<close>.
  \<^item> \<open>Import m a\<close> is \<^verbatim>\<open>import m as a\<close>, \<open>ImportFrom m ns\<close> is \<^verbatim>\<open>from m import ns\<close>.
  \<^item> \<open>Try body handler\<close> is a \<^verbatim>\<open>try\<close> statement whose \<^verbatim>\<open>except\<close> clause runs \<open>handler\<close>.
\<close>

section \<open>The matplotlib notebook\<close>

text \<open>The code cells of the matplotlib notebook, in file order.\<close>

definition mpl_install_clearml :: "stmt list" where
  "mpl_install_clearml =
    [Comment ''# If you don't have ClearML installed then uncomment this line'',
     Comment ''# !pip install clearml'']"

definition mpl_install_seaborn :: "stmt list" where
  "mpl_install_seaborn = [Shell ''pip install seaborn'']"

definition mpl_task_init :: "stmt list" where
  \<open>mpl_task_init =
    [Import ''matplotlib.pyplot'' ''plt'',
     Import ''numpy'' ''np'',
     Import ''seaborn'' ''sns'',
     ImportFrom ''clearml'' [''Task''],
     Comment ''# Start a new task'',
     Assign ''task''
       (Call (Attr (Name ''Task'') ''init'') []
          [(''project_name'', Str ''Colab notebooks''),
           (''task_name'', Str ''Matplotlib example'')])]\<close>

definition mpl_scatter :: "stmt list" where
  \<open>mpl_scatter =
    [Comment ''# create plot'',
     Assign ''N'' (Num ''50''),
     Assign ''x'' (Call (Attr (Attr (Name ''np'') ''random'') ''rand'') [Name ''N''] []),
     Assign ''y'' (Call (Attr (Attr (Name ''np'') ''random'') ''rand'') [Name ''N''] []),
     Assign ''colors'' (Call (Attr (Attr (Name ''np'') ''random'') ''rand'') [Name ''N''] []),
     Assign ''area''
       (BinOp
          (BinOp (Num ''30'') ''*''
             (Call (Attr (Attr (Name ''np'') ''random'') ''rand'') [Name ''N''] []))
          ''**'' (Num ''2'')),
     Comment ''# 0 to 15 point radii'',
     ExprStmt
       (Call (Attr (Name ''plt'') ''scatter'') [Name ''x'', Name ''y'']
          [(''s'', Name ''area''), (''c'', Name ''colors''), (''alpha'', Num ''0.5'')]),
     ExprStmt (Call (Attr (Name ''plt'') ''show'') [] [])]\<close>

definition mpl_plot :: "stmt list" where
  \<open>mpl_plot =
    [Comment ''# create another plot - with a name'',
     Assign ''x'' (Call (Attr (Name ''np'') ''linspace'') [Num ''0'', Num ''10'', Num ''30''] []),
     Assign ''y'' (Call (Attr (Name ''np'') ''sin'') [Name ''x''] []),
     ExprStmt
       (Call (Attr (Name ''plt'') ''plot'') [Name ''x'', Name ''y'', Str ''o'']
          [(''color'', Str ''pink'')]),
     ExprStmt (Call (Attr (Name ''plt'') ''show'') [] [])]\<close>

definition mpl_imshow :: "stmt list" where
  \<open>mpl_imshow =
    [Comment ''# create unitlted image plot'',
     Assign ''m''
       (Call (Attr (Name ''np'') ''eye'') [Num ''256'', Num ''256'']
          [(''dtype'', Attr (Name ''np'') ''uint8'')]),
     ExprStmt (Call (Attr (Name ''plt'') ''imshow'') [Name ''m''] []),
     ExprStmt (Call (Attr (Name ''plt'') ''show'') [] [])]\<close>

definition mpl_imshow_title :: "stmt list" where
  \<open>mpl_imshow_title =
    [Comment ''# create image plot - with a name'',
     Assign ''m''
       (Call (Attr (Name ''np'') ''eye'') [Num ''256'', Num ''256'']
          [(''dtype'', Attr (Name ''np'') ''uint8'')]),
     ExprStmt (Call (Attr (Name ''plt'') ''imshow'') [Name ''m''] []),
     ExprStmt (Call (Attr (Name ''plt'') ''title'') [Str ''Image Title''] []),
     ExprStmt (Call (Attr (Name ''plt'') ''show'') [] [])]\<close>

definition mpl_savefig :: "stmt list" where
  \<open>mpl_savefig =
    [Comment ''# create plot with savefig'',
     Assign ''N'' (Num ''10''),
     Assign ''x'' (Call (Attr (Attr (Name ''np'') ''random'') ''rand'') [Name ''N''] []),
     Assign ''y'' (Call (Attr (Attr (Name ''np'') ''random'') ''rand'') [Name ''N''] []),
     Assign ''colors'' (Call (Attr (Attr (Name ''np'') ''random'') ''rand'') [Name ''N''] []),
     Assign ''area''
       (BinOp
          (BinOp (Num ''30'') ''*''
             (Call (Attr (Attr (Name ''np'') ''random'') ''rand'') [Name ''N''] []))
          ''**'' (Num ''2'')),
     ExprStmt (Call (Attr (Name ''plt'') ''title'') [Str ''savefig Image''] []),
     ExprStmt
       (Call (Attr (Name ''plt'') ''scatter'') [Name ''x'', Name ''y'']
          [(''s'', Name ''area''), (''c'', Name ''colors''), (''alpha'', Num ''0.5'')]),
     ExprStmt (Call (Attr (Name ''plt'') ''savefig'') [Str ''plot.png''] [])]\<close>

definition mpl_seaborn :: "stmt list" where
  \<open>mpl_seaborn =
    [ExprStmt (Call (Attr (Name ''sns'') ''set'') [] [(''style'', Str ''darkgrid'')]),
     Comment ''# Load an example dataset with long-form data'',
     Assign ''fmri'' (Call (Attr (Name ''sns'') ''load_dataset'') [Str ''fmri''] []),
     Comment ''# Plot the responses for different events and regions'',
     ExprStmt
       (Call (Attr (Name ''sns'') ''lineplot'') []
          [(''x'', Str ''timepoint''), (''y'', Str ''signal''),
           (''hue'', Str ''region''), (''style'', Str ''event''),
           (''data'', Name ''fmri'')]),
     ExprStmt (Call (Attr (Name ''plt'') ''show'') [] [])]\<close>

definition matplotlib_nb :: notebook where
  "matplotlib_nb =
    [Markdown ''NKas2cYws8F6'',
     Code ''72lCj7MJmRkQ'' mpl_install_clearml,
     Code '''' mpl_install_seaborn,
     Markdown ''b8jtq0iSt3-U'',
     Code ''ses67ulJkGPq'' mpl_task_init,
     Markdown ''T2l-0WvJt_yo'',
     Code ''a-nOyg9xlxiR'' mpl_scatter,
     Code ''iV4BtqRFmi0N'' mpl_plot,
     Markdown ''yKT5UjDk6DGB'',
     Code ''IVzUScalmio-'' mpl_imshow,
     Code ''mioKlXpimib1'' mpl_imshow_title,
     Code ''AE7Gbm3GfvvK'' mpl_savefig,
     Markdown ''jcRWq9Xc56fX'',
     Code ''j-usk2d_mqS4'' mpl_seaborn]"

section \<open>The transformers notebook\<close>

text \<open>The code cells of the HuggingFace transformers notebook, in file order.\<close>

definition hf_credentials :: "stmt list" where
  "hf_credentials =
    [Comment ''# ClearML credentials'',
     Magic ''env'' ''CLEARML_WEB_HOST='',
     Magic ''env'' ''CLEARML_API_HOST='',
     Magic ''env'' ''CLEARML_FILES_HOST='',
     Magic ''env'' ''CLEARML_API_ACCESS_KEY='',
     Magic ''env'' ''CLEARML_API_SECRET_KEY='']"

definition hf_log_model :: "stmt list" where
  \<open>hf_log_model =
    [Comment ''# Set to true so ClearML will log the models created by the trainer'',
     Magic ''env'' ''CLEARML_LOG_MODEL=True'',
     Comment ''# Set the ClearML task name (default "Trainer")'',
     Comment ''# %env CLEARML_TASK='',
     Comment ''# Set task's project (default "HuggingFace Transformers")'',
     Comment ''# %env CLEARML_PROJECT='']\<close>

definition hf_install :: "stmt list" where
  "hf_install =
    [Comment ''# ClearML installation'',
     Shell '' pip install clearml'',
     Comment ''# Transformers installation'',
     Shell '' pip install transformers[torch] datasets'',
     Shell ''pip install accelerate -U'']"

definition hf_model :: "stmt list" where
  \<open>hf_model =
    [ImportFrom ''transformers'' [''AutoModelForSequenceClassification''],
     Assign ''model''
       (Call (Attr (Name ''AutoModelForSequenceClassification'') ''from_pretrained'')
          [Str ''distilbert-base-uncased''] [])]\<close>

definition hf_training_args :: "stmt list" where
  \<open>hf_training_args =
    [ImportFrom ''transformers'' [''TrainingArguments''],
     Assign ''training_args''
       (Call (Name ''TrainingArguments'') []
          [(''output_dir'', Str ''path/to/save/folder/''),
           (''learning_rate'', Num ''2e-5''),
           (''per_device_train_batch_size'', Num ''8''),
           (''per_device_eval_batch_size'', Num ''8''),
           (''num_train_epochs'', Num ''2''),
           (''report_to'', ListE [Str ''clearml''])])]\<close>

definition hf_tokenizer :: "stmt list" where
  \<open>hf_tokenizer =
    [ImportFrom ''transformers'' [''AutoTokenizer''],
     Assign ''tokenizer''
       (Call (Attr (Name ''AutoTokenizer'') ''from_pretrained'')
          [Str ''distilbert-base-uncased''] [])]\<close>

definition hf_dataset :: "stmt list" where
  \<open>hf_dataset =
    [ImportFrom ''datasets'' [''load_dataset''],
     Assign ''dataset'' (Call (Name ''load_dataset'') [Str ''rotten_tomatoes''] []),
     Comment ''# doctest: +IGNORE_RESULT'']\<close>

definition hf_tokenize :: "stmt list" where
  \<open>hf_tokenize =
    [FunctionDef ''tokenize_dataset'' [''dataset'']
       [Return (Call (Name ''tokenizer'') [Subscript (Name ''dataset'') (Str ''text'')] [])],
     Assign ''dataset''
       (Call (Attr (Name ''dataset'') ''map'') [Name ''tokenize_dataset'']
          [(''batched'', Name ''True'')])]\<close>

definition hf_collator :: "stmt list" where
  \<open>hf_collator =
    [ImportFrom ''transformers'' [''DataCollatorWithPadding''],
     Assign ''data_collator''
       (Call (Name ''DataCollatorWithPadding'') [] [(''tokenizer'', Name ''tokenizer'')])]\<close>

definition hf_trainer :: "stmt list" where
  \<open>hf_trainer =
    [ImportFrom ''transformers'' [''Trainer''],
     Assign ''trainer''
       (Call (Name ''Trainer'') []
          [(''model'', Name ''model''),
           (''args'', Name ''training_args''),
           (''train_dataset'', Subscript (Name ''dataset'') (Str ''train'')),
           (''eval_dataset'', Subscript (Name ''dataset'') (Str ''test'')),
           (''tokenizer'', Name ''tokenizer''),
           (''data_collator'', Name ''data_collator'')])]\<close>

definition hf_train :: "stmt list" where
  "hf_train = [ExprStmt (Call (Attr (Name ''trainer'') ''train'') [] [])]"

definition transformers_nb :: notebook where
  "transformers_nb =
    [Markdown ''jF2e1XVCazr3'',
     Markdown ''hkRlrlpoKu7X'',
     Code ''1F-V3rDzDPKj'' hf_credentials,
     Code ''2rrFgf_4OPaW'' hf_log_model,
     Markdown ''pmA00rW9yQnA'',
     Code ''DdLigEyL9_Sr'' hf_install,
     Markdown ''1hA8BaUo9_Tm'',
     Markdown ''LG-TqpPf9_Tn'',
     Code ''_seFDUhq_Mt9'' hf_model,
     Markdown ''Va3iOGxa_Vra'',
     Code ''LjSvf25e_XuL'' hf_training_args,
     Markdown ''dt38Jd46_gJT'',
     Code ''Yfr18wjk_h89'' hf_tokenizer,
     Markdown ''o_lcuw5b_l76'',
     Code ''fpZhsScX_nZh'' hf_dataset,
     Markdown ''zHQ3A5bC_r5e'',
     Code ''SdyzdgrS_tdf'' hf_tokenize,
     Markdown ''w_ailAc5AA2w'',
     Code ''l4L_HvPpAG8y'' hf_collator,
     Markdown ''Q3WimRh3AOQ6'',
     Code ''RMTBiL159_Tn'' hf_trainer,
     Markdown ''1rc5xo-F9_Tn'',
     Code ''jO6FkQM_9_To'' hf_train,
     Markdown ''QdLmkuBF9_To'']"

section \<open>Traversals\<close>

text \<open>All sub-expressions of an expression, the expression itself first.\<close>

fun sub_exprs :: "expr \<Rightarrow> expr list" where
  "sub_exprs (Name x) = [Name x]"
| "sub_exprs (Num n) = [Num n]"
| "sub_exprs (Str s) = [Str s]"
| "sub_exprs (ListE es) = ListE es # concat (map sub_exprs es)"
| "sub_exprs (Attr e f) = Attr e f # sub_exprs e"
| "sub_exprs (Subscript e i) = Subscript e i # sub_exprs e @ sub_exprs i"
| "sub_exprs (BinOp l opr r) = BinOp l opr r # sub_exprs l @ sub_exprs r"
| "sub_exprs (Call f args kws) =
     Call f args kws # sub_exprs f @ concat (map sub_exprs args)
       @ concat (map (\<lambda>kw. sub_exprs (snd kw)) kws)"
| "sub_exprs (Await e) = Await e # sub_exprs e"
| "sub_exprs (Yield e) = Yield e # sub_exprs e"

text \<open>All statements of a statement, nested bodies included, the statement itself first.\<close>

fun sub_stmts :: "stmt \<Rightarrow> stmt list" where
  "sub_stmts (FunctionDef f ps body) = FunctionDef f ps body # concat (map sub_stmts body)"
| "sub_stmts (AsyncDef f ps body) = AsyncDef f ps body # concat (map sub_stmts body)"
| "sub_stmts (If c body orelse) =
     If c body orelse # concat (map sub_stmts body) @ concat (map sub_stmts orelse)"
| "sub_stmts (For v e body) = For v e body # concat (map sub_stmts body)"
| "sub_stmts (While c body) = While c body # concat (map sub_stmts body)"
| "sub_stmts (With e body) = With e body # concat (map sub_stmts body)"
| "sub_stmts (Try body handler) =
     Try body handler # concat (map sub_stmts body) @ concat (map sub_stmts handler)"
| "sub_stmts s = [s]"

text \<open>The expressions a statement holds directly (not those of nested statements).\<close>

fun stmt_exprs :: "stmt \<Rightarrow> expr list" where
  "stmt_exprs (Assign v e) = [e]"
| "stmt_exprs (ExprStmt e) = [e]"
| "stmt_exprs (Return e) = [e]"
| "stmt_exprs (If c body orelse) = [c]"
| "stmt_exprs (For v e body) = [e]"
| "stmt_exprs (While c body) = [c]"
| "stmt_exprs (With e body) = [e]"
| "stmt_exprs s = []"

text \<open>
  The top-level statements of a notebook, each with the index of its cell, in running
  order; and the same for all statements, nested ones included.
\<close>

fun cell_stmts :: "cell \<Rightarrow> stmt list" where
  "cell_stmts (Markdown i) = []"
| "cell_stmts (Code i ss) = ss"

definition top_stmts :: "notebook \<Rightarrow> (nat \<times> stmt) list" where
  "top_stmts nb = concat (map (\<lambda>(i, c). map (Pair i) (cell_stmts c)) (enumerate 0 nb))"

definition all_stmts :: "notebook \<Rightarrow> (nat \<times> stmt) list" where
  "all_stmts nb = concat (map (\<lambda>(i, s). map (Pair i) (sub_stmts s)) (top_stmts nb))"

definition all_exprs :: "notebook \<Rightarrow> (nat \<times> expr) list" where
  "all_exprs nb =
     concat (map (\<lambda>(i, s). map (Pair i) (concat (map sub_exprs (stmt_exprs s)))) (all_stmts nb))"

text \<open>All calls of a notebook: cell index, callee, positional and keyword arguments.\<close>

fun call_of :: "nat \<times> expr \<Rightarrow> (nat \<times> expr \<times> expr list \<times> (string \<times> expr) list) list" where
  "call_of (i, Call f args kws) = [(i, f, args, kws)]"
| "call_of (i, e) = []"

definition calls :: "notebook \<Rightarrow> (nat \<times> expr \<times> expr list \<times> (string \<times> expr) list) list" where
  "calls nb = concat (map call_of (all_exprs nb))"

text \<open>The dotted name of a callee: \<^verbatim>\<open>np.random.rand\<close> for the attribute chain.\<close>

fun dotted :: "expr \<Rightarrow> string" where
  "dotted (Name x) = x"
| "dotted (Attr e f) = dotted e @ ''.'' @ f"
| "dotted e = ''?''"

definition callees :: "notebook \<Rightarrow> (nat \<times> string) list" where
  "callees nb = map (\<lambda>(i, f, args, kws). (i, dotted f)) (calls nb)"

text \<open>The last name of a callee: \<^verbatim>\<open>rand\<close> for \<^verbatim>\<open>np.random.rand\<close>.\<close>

fun callee_name :: "expr \<Rightarrow> string" where
  "callee_name (Name x) = x"
| "callee_name (Attr e f) = f"
| "callee_name e = []"

text \<open>The calls of a notebook whose callee's last name is one of \<open>ns\<close>.\<close>

definition calls_named ::
  "string list \<Rightarrow> notebook \<Rightarrow> (nat \<times> expr \<times> expr list \<times> (string \<times> expr) list) list" where
  "calls_named ns nb = filter (\<lambda>(i, f, args, kws). callee_name f \<in> set ns) (calls nb)"

text \<open>Every occurrence of a variable in an expression: the cell index and the name.\<close>

fun name_of :: "nat \<times> expr \<Rightarrow> (nat \<times> string) list" where
  "name_of (i, Name x) = [(i, x)]"
| "name_of (i, e) = []"

definition names_used :: "notebook \<Rightarrow> (nat \<times> string) list" where
  "names_used nb = concat (map name_of (all_exprs nb))"

definition uses_of :: "string \<Rightarrow> notebook \<Rightarrow> nat list" where
  "uses_of v nb = map fst (filter (\<lambda>(i, x). x = v) (names_used nb))"

text \<open>Every assignment statement, nested ones included: cell index, target and value.\<close>

fun assign_of :: "nat \<times> stmt \<Rightarrow> (nat \<times> string \<times> expr) list" where
  "assign_of (i, Assign v e) = [(i, v, e)]"
| "assign_of (i, s) = []"

definition assignments :: "notebook \<Rightarrow> (nat \<times> string \<times> expr) list" where
  "assignments nb = concat (map assign_of (all_stmts nb))"

text \<open>The modules a notebook imports, by either import form.\<close>

fun import_of :: "nat \<times> stmt \<Rightarrow> (nat \<times> string) list" where
  "import_of (i, Import m a) = [(i, m)]"
| "import_of (i, ImportFrom m ns) = [(i, m)]"
| "import_of (i, s) = []"

definition imported_modules :: "notebook \<Rightarrow> (nat \<times> string) list" where
  "imported_modules nb = concat (map import_of (all_stmts nb))"

text \<open>The shell escapes and the line magics of a notebook.\<close>

fun shell_of :: "nat \<times> stmt \<Rightarrow> (nat \<times> string) list" where
  "shell_of (i, Shell t) = [(i, t)]"
| "shell_of (i, s) = []"

definition shell_escapes :: "notebook \<Rightarrow> (nat \<times> string) list" where
  "shell_escapes nb = concat (map shell_of (all_stmts nb))"

fun magic_of :: "nat \<times> stmt \<Rightarrow> (nat \<times> string \<times> string) list" where
  "magic_of (i, Magic m t) = [(i, m, t)]"
| "magic_of (i, s) = []"

definition magics :: "notebook \<Rightarrow> (nat \<times> string \<times> string) list" where
  "magics nb = concat (map magic_of (all_stmts nb))"

section \<open>The steps of a notebook\<close>

text \<open>
  The specification describes a notebook as five steps: install dependencies, configure
  credentials and environment variables, construct library objects, invoke a run or plot
  call, display a result. A statement belongs to a step by its form:
  \<^item> a shell escape running \<^verbatim>\<open>pip install\<close> installs;
  \<^item> an \<^verbatim>\<open>%env\<close> magic configures;
  \<^item> an assignment whose value holds a call constructs a library object;
  \<^item> a call statement of \<^verbatim>\<open>train\<close>, \<^verbatim>\<open>scatter\<close>, \<^verbatim>\<open>plot\<close>, \<^verbatim>\<open>imshow\<close> or
    \<^verbatim>\<open>lineplot\<close> is a run or plot call;
  \<^item> a call statement of \<^verbatim>\<open>show\<close>, \<^verbatim>\<open>savefig\<close>, \<^verbatim>\<open>print\<close> or \<^verbatim>\<open>display\<close> displays.
  Comments, imports, function definitions, literal assignments and styling calls
  (\<^verbatim>\<open>plt.title\<close>, \<^verbatim>\<open>sns.set\<close>) belong to no step.
\<close>

datatype step = Install | Configure | Construct | Run | Display

fun rank :: "step \<Rightarrow> nat" where
  "rank Install = 0"
| "rank Configure = 1"
| "rank Construct = 2"
| "rank Run = 3"
| "rank Display = 4"

definition is_pip_install :: "string \<Rightarrow> bool" where
  "is_pip_install t = (take 11 (dropWhile (\<lambda>c. c = CHR '' '') t) = ''pip install'')"

definition run_names :: "string list" where
  "run_names = [''train'', ''scatter'', ''plot'', ''imshow'', ''lineplot'']"

definition display_names :: "string list" where
  "display_names = [''show'', ''savefig'', ''print'', ''display'']"

fun has_call :: "expr \<Rightarrow> bool" where
  "has_call e = (concat (map (\<lambda>x. call_of (0, x)) (sub_exprs e)) \<noteq> [])"

fun step_of :: "stmt \<Rightarrow> step option" where
  "step_of (Shell t) = (if is_pip_install t then Some Install else None)"
| "step_of (Magic m t) = (if m = ''env'' then Some Configure else None)"
| "step_of (Assign v e) = (if has_call e then Some Construct else None)"
| "step_of (ExprStmt (Call f args kws)) =
     (if callee_name f \<in> set run_names then Some Run
      else if callee_name f \<in> set display_names then Some Display
      else None)"
| "step_of s = None"

fun step_at :: "nat \<times> stmt \<Rightarrow> (nat \<times> step) list" where
  "step_at (i, s) = (case step_of s of None \<Rightarrow> [] | Some p \<Rightarrow> [(i, p)])"

text \<open>The steps of a notebook in running order, each with the index of its cell.\<close>

definition steps :: "notebook \<Rightarrow> (nat \<times> step) list" where
  "steps nb = concat (map step_at (top_stmts nb))"

definition cells_of_step :: "step \<Rightarrow> notebook \<Rightarrow> nat list" where
  "cells_of_step p nb = remdups (map fst (filter (\<lambda>(i, q). q = p) (steps nb)))"

text \<open>
  The order of the specification: the steps of the notebook, in running order, never go
  back from a later step to an earlier one.
\<close>

definition spec_order :: "notebook \<Rightarrow> bool" where
  "spec_order nb = sorted (map (\<lambda>(i, p). rank p) (steps nb))"

text \<open>Every install cell comes before every credential cell.\<close>

definition installs_before_credentials :: "notebook \<Rightarrow> bool" where
  "installs_before_credentials nb =
     list_all (\<lambda>i. list_all (\<lambda>j. i < j) (cells_of_step Configure nb)) (cells_of_step Install nb)"

text \<open>The run and plot calls that stand as statements of their own, by cell and dotted name.\<close>

fun run_call_at :: "nat \<times> stmt \<Rightarrow> (nat \<times> string) list" where
  "run_call_at (i, ExprStmt (Call f args kws)) =
     (if callee_name f \<in> set run_names then [(i, dotted f)] else [])"
| "run_call_at (i, s) = []"

definition run_calls :: "notebook \<Rightarrow> (nat \<times> string) list" where
  "run_calls nb = concat (map run_call_at (top_stmts nb))"

definition single_run_call :: "notebook \<Rightarrow> bool" where
  "single_run_call nb = (length (run_calls nb) = 1)"

text \<open>The steps of each cell, runs of the same step written once.\<close>

definition cell_steps :: "notebook \<Rightarrow> (nat \<times> step list) list" where
  "cell_steps nb =
     filter (\<lambda>(i, ps). ps \<noteq> [])
       (map (\<lambda>(i, c). (i, remdups_adj (map snd (concat (map (\<lambda>s. step_at (i, s)) (cell_stmts c))))))
          (enumerate 0 nb))"

section \<open>Running a notebook\<close>

text \<open>
  Cells run in file order and the statements of a cell in source order. What a statement
  does is decided outside the repository: by the Python interpreter, by IPython and by the
  libraries the statement calls. This is the parameter \<open>ext\<close>: from a statement and the
  state of the world before it, either the exception the statement raises (with the world
  at that moment) or the world after it. The only statement that changes what becomes of an
  exception is \<^verbatim>\<open>try\<close>: when its body raises, its handler runs and the exception is gone.
  A run stops at the first exception that no handler takes.
\<close>

type_synonym exn = string

fun exec :: "(stmt \<Rightarrow> 'w \<Rightarrow> exn \<times> 'w + 'w) \<Rightarrow> stmt list \<Rightarrow> 'w \<Rightarrow> exn \<times> 'w + 'w" where
  "exec ext [] w = Inr w"
| "exec ext (Try body handler # ss) w =
     (case exec ext body w of
        Inl (e, w') \<Rightarrow>
          (case exec ext handler w' of Inl r \<Rightarrow> Inl r | Inr w'' \<Rightarrow> exec ext ss w'')
      | Inr w' \<Rightarrow> exec ext ss w')"
| "exec ext (s # ss) w = (case ext s w of Inl r \<Rightarrow> Inl r | Inr w' \<Rightarrow> exec ext ss w')"

fun run :: "(stmt \<Rightarrow> 'w \<Rightarrow> exn \<times> 'w + 'w) \<Rightarrow> notebook \<Rightarrow> 'w \<Rightarrow> exn \<times> 'w + 'w" where
  "run ext [] w = Inr w"
| "run ext (c # cs) w =
     (case exec ext (cell_stmts c) w of Inl r \<Rightarrow> Inl r | Inr w' \<Rightarrow> run ext cs w')"

text \<open>The exception handlers of a notebook: every \<^verbatim>\<open>try\<close> statement, nested ones included.\<close>

fun is_try :: "stmt \<Rightarrow> bool" where
  "is_try (Try body handler) = True"
| "is_try s = False"

definition handlers :: "notebook \<Rightarrow> (nat \<times> stmt) list" where
  "handlers nb = filter (\<lambda>(i, s). is_try s) (all_stmts nb)"

text \<open>
  A world in which the package seaborn is missing: importing it raises, every other
  statement succeeds. The world counts the statements that have run.
\<close>

fun missing_seaborn :: "stmt \<Rightarrow> nat \<Rightarrow> exn \<times> nat + nat" where
  "missing_seaborn (Import m a) n =
     (if m = ''seaborn'' then Inl (''ModuleNotFoundError'', n) else Inr (Suc n))"
| "missing_seaborn s n = Inr (Suc n)"

section \<open>Variables bound to library objects\<close>

text \<open>
  A variable is bound to a library object when it is the target of an assignment whose
  value holds a call. \<open>assign_count v nb\<close> counts all assignments to \<open>v\<close> in the notebook.
\<close>

definition lib_vars :: "notebook \<Rightarrow> string list" where
  "lib_vars nb = remdups (map (\<lambda>(i, v, e). v) (filter (\<lambda>(i, v, e). has_call e) (assignments nb)))"

definition assign_count :: "string \<Rightarrow> notebook \<Rightarrow> nat" where
  "assign_count v nb = length (filter (\<lambda>(i, w, e). w = v) (assignments nb))"

definition assign_counts :: "notebook \<Rightarrow> (string \<times> nat) list" where
  "assign_counts nb = map (\<lambda>v. (v, assign_count v nb)) (lib_vars nb)"

definition assigned_once :: "notebook \<Rightarrow> bool" where
  "assigned_once nb = list_all (\<lambda>v. assign_count v nb = 1) (lib_vars nb)"

definition values_of :: "string \<Rightarrow> notebook \<Rightarrow> (nat \<times> expr) list" where
  "values_of v nb = map (\<lambda>(i, w, e). (i, e)) (filter (\<lambda>(i, w, e). w = v) (assignments nb))"

section \<open>Environment variables\<close>

text \<open>
  The process environment is a map from names to strings. The line magic
  \<^verbatim>\<open>%env\<close> is IPython's: \<^verbatim>\<open>%env var=val\<close> (or \<^verbatim>\<open>%env var val\<close>) sets \<open>var\<close> to \<open>val\<close>, both
  stripped of surrounding white space; \<^verbatim>\<open>%env var\<close> reads \<open>var\<close>; \<^verbatim>\<open>%env\<close> alone lists the
  environment. A name with white space in it and a read of an unset name are usage errors.
\<close>

type_synonym env = "string \<rightharpoonup> string"

definition is_space :: "char \<Rightarrow> bool" where
  "is_space c = (c = CHR '' '' \<or> c = CHR 0x09 \<or> c = CHR 0x0A \<or> c = CHR 0x0D)"

definition strip :: "string \<Rightarrow> string" where
  "strip t = rev (dropWhile is_space (rev (dropWhile is_space t)))"

definition env_sep :: "string \<Rightarrow> char" where
  "env_sep t = (if CHR ''='' \<in> set t then CHR ''='' else CHR '' '')"

definition env_var :: "string \<Rightarrow> string" where
  "env_var t = strip (takeWhile (\<lambda>c. c \<noteq> env_sep t) t)"

definition env_val :: "string \<Rightarrow> string" where
  "env_val t = strip (drop 1 (dropWhile (\<lambda>c. c \<noteq> env_sep t) t))"

definition set_env :: "string \<Rightarrow> env \<Rightarrow> exn + env" where
  "set_env t e =
     (if strip t = [] \<or> env_sep t \<notin> set t then Inl ''UsageError''
      else if list_ex is_space (env_var t) then Inl ''UsageError''
      else Inr (e(env_var t \<mapsto> env_val t)))"

definition magic_env :: "string \<Rightarrow> env \<Rightarrow> exn + env" where
  "magic_env t e =
     (if strip t = [] then Inr e
      else if env_sep t \<notin> set t
        then (if e (strip t) = None then Inl ''UsageError'' else Inr e)
      else set_env t e)"

text \<open>
  The effect of the \<^verbatim>\<open>%env\<close> magics of a statement list on the environment, in source
  order. Comments have no effect. What the libraries called by other statements do to
  the environment is outside the repository and is not part of this function.
\<close>

fun run_magics :: "stmt list \<Rightarrow> env \<Rightarrow> exn + env" where
  "run_magics [] e = Inr e"
| "run_magics (Magic m t # ss) e =
     (if m = ''env''
      then (case magic_env t e of Inl x \<Rightarrow> Inl x | Inr e' \<Rightarrow> run_magics ss e')
      else run_magics ss e)"
| "run_magics (s # ss) e = run_magics ss e"

fun comment_or_env :: "stmt \<Rightarrow> bool" where
  "comment_or_env (Comment c) = True"
| "comment_or_env (Magic m t) = (m = ''env'')"
| "comment_or_env s = False"

text \<open>The environment variables a notebook sets by \<^verbatim>\<open>%env\<close>: cell, name and value.\<close>

definition env_settings :: "notebook \<Rightarrow> (nat \<times> string \<times> string) list" where
  "env_settings nb =
     map (\<lambda>(i, m, t). (i, env_var t, env_val t))
       (filter (\<lambda>(i, m, t). m = ''env'' \<and> env_sep t \<in> set t) (magics nb))"

text \<open>
  The expressions by which Python code would reach the environment or name one of the
  ClearML variables: \<^verbatim>\<open>os\<close>, \<^verbatim>\<open>environ\<close>, \<^verbatim>\<open>getenv\<close>, \<^verbatim>\<open>putenv\<close>, or a string
  starting with \<^verbatim>\<open>CLEARML_\<close>.
\<close>

fun mentions_env :: "nat \<times> expr \<Rightarrow> bool" where
  "mentions_env (i, Name x) = (x \<in> set [''os'', ''environ'', ''getenv'', ''putenv''])"
| "mentions_env (i, Attr e f) = (f \<in> set [''environ'', ''getenv'', ''putenv''])"
| "mentions_env (i, Str t) = (take 8 t = ''CLEARML_'')"
| "mentions_env (i, e) = False"

definition env_mentions :: "notebook \<Rightarrow> (nat \<times> expr) list" where
  "env_mentions nb = filter mentions_env (all_exprs nb)"

section \<open>Effects on the local filesystem\<close>

text \<open>
  A statement of the repository asks for a change of the local filesystem in two ways: by
  a call of a function whose purpose is to write the file it is given (the functions of
  \<open>file_output_names\<close>), and by a shell escape that installs packages. Files that a
  library writes on its own while it does something else (caches, checkpoints, logs) are
  the library's, not the repository's.
\<close>

datatype fs_change =
    FileWrite string "expr list" "(string \<times> expr) list"
  | PackageInstall string

definition file_output_names :: "string list" where
  "file_output_names =
     [''savefig'', ''imsave'', ''open'', ''write'', ''writelines'', ''save'', ''dump'',
      ''to_csv'', ''to_json'', ''to_pickle'', ''save_model'', ''save_pretrained'',
      ''save_to_disk'', ''mkdir'', ''makedirs'']"

fun file_write_of :: "expr \<Rightarrow> fs_change list" where
  "file_write_of (Call f args kws) =
     (if callee_name f \<in> set file_output_names then [FileWrite (dotted f) args kws] else [])"
| "file_write_of e = []"

fun fs_change_at :: "nat \<times> stmt \<Rightarrow> (nat \<times> fs_change) list" where
  "fs_change_at (i, Shell t) = (if is_pip_install t then [(i, PackageInstall t)] else [])"
| "fs_change_at (i, s) =
     map (Pair i) (concat (map file_write_of (concat (map sub_exprs (stmt_exprs s)))))"

definition fs_changes :: "notebook \<Rightarrow> (nat \<times> fs_change) list" where
  "fs_changes nb = concat (map fs_change_at (all_stmts nb))"

section \<open>Operations\<close>

text \<open>
  The operations of the repository are the calls the specification lists: initialising
  the tracking session and generating a scatter, line or image plot in the matplotlib
  notebook; building the model, the training arguments, the tokenizer, the dataset, the
  tokenized dataset, the data collator and the trainer, and invoking the training loop in
  the transformers notebook. \<open>operation_names\<close> holds the dotted names of their functions.

  The specification tells plots apart by their title and by their being saved (a titled
  image plot, a saved scatter figure), so the calls that make up an operation are the call
  of its function and the calls of \<^verbatim>\<open>plt.title\<close> and \<^verbatim>\<open>plt.savefig\<close> in its cell. The
  calls that make the data, set the style or show the figure stand around the operation
  and are not counted. The claim that each operation is one library call says that every
  count is one.
\<close>

definition operation_names :: "string list" where
  "operation_names =
     [''Task.init'', ''plt.scatter'', ''plt.plot'', ''plt.imshow'', ''sns.lineplot'',
      ''AutoModelForSequenceClassification.from_pretrained'', ''TrainingArguments'',
      ''AutoTokenizer.from_pretrained'', ''load_dataset'', ''dataset.map'',
      ''DataCollatorWithPadding'', ''Trainer'', ''trainer.train'']"

definition qualifier_names :: "string list" where
  "qualifier_names = [''plt.title'', ''plt.savefig'']"

definition operations :: "notebook \<Rightarrow> (nat \<times> string) list" where
  "operations nb = filter (\<lambda>(i, n). n \<in> set operation_names) (callees nb)"

definition operation_calls :: "notebook \<Rightarrow> nat \<Rightarrow> string list" where
  "operation_calls nb i =
     map snd
       (filter (\<lambda>(j, n). j = i \<and> n \<in> set (operation_names @ qualifier_names)) (callees nb))"

definition calls_per_operation :: "notebook \<Rightarrow> (nat \<times> nat) list" where
  "calls_per_operation nb = map (\<lambda>(i, n). (i, length (operation_calls nb i))) (operations nb)"

definition one_call_each :: "notebook \<Rightarrow> bool" where
  "one_call_each nb = list_all (\<lambda>(i, k). k = 1) (calls_per_operation nb)"

text \<open>
  The first name of a callee (\<^verbatim>\<open>np\<close> for \<^verbatim>\<open>np.random.rand\<close>), the names a notebook binds
  by its imports, and the arithmetic the notebook does itself, by operator.
\<close>

fun root :: "expr \<Rightarrow> string" where
  "root (Name x) = x"
| "root (Attr e f) = root e"
| "root e = []"

definition call_roots :: "notebook \<Rightarrow> string list" where
  "call_roots nb = remdups (map (\<lambda>(i, f, args, kws). root f) (calls nb))"

fun import_binds :: "nat \<times> stmt \<Rightarrow> string list" where
  "import_binds (i, Import m a) = [a]"
| "import_binds (i, ImportFrom m ns) = ns"
| "import_binds (i, s) = []"

definition imported_names :: "notebook \<Rightarrow> string list" where
  "imported_names nb = concat (map import_binds (all_stmts nb))"

fun binop_of :: "nat \<times> expr \<Rightarrow> (nat \<times> string) list" where
  "binop_of (i, BinOp l opr r) = [(i, opr)]"
| "binop_of (i, e) = []"

definition arithmetic :: "notebook \<Rightarrow> (nat \<times> string) list" where
  "arithmetic nb = concat (map binop_of (all_exprs nb))"

text \<open>
  A plot gets a name by a call of \<^verbatim>\<open>title\<close>. A cell announces a named plot by a comment
  that ends in \<^verbatim>\<open>with a name\<close>.
\<close>

definition title_calls :: "notebook \<Rightarrow> (nat \<times> expr list) list" where
  "title_calls nb = map (\<lambda>(i, f, args, kws). (i, args)) (calls_named [''title''] nb)"

definition ends_with :: "string \<Rightarrow> string \<Rightarrow> bool" where
  "ends_with t c = (take (length t) (rev c) = rev t)"

fun announces_name :: "nat \<times> stmt \<Rightarrow> bool" where
  "announces_name (i, Comment c) = ends_with ''with a name'' c"
| "announces_name (i, s) = False"

definition cells_announcing_name :: "notebook \<Rightarrow> nat list" where
  "cells_announcing_name nb = map fst (filter announces_name (all_stmts nb))"

text \<open>Statements with a body: function definitions and control flow.\<close>

fun is_compound :: "nat \<times> stmt \<Rightarrow> bool" where
  "is_compound (i, FunctionDef f ps body) = True"
| "is_compound (i, AsyncDef f ps body) = True"
| "is_compound (i, If c body orelse) = True"
| "is_compound (i, For v e body) = True"
| "is_compound (i, While c body) = True"
| "is_compound (i, With e body) = True"
| "is_compound (i, Try body handler) = True"
| "is_compound (i, s) = False"

definition compound_stmts :: "notebook \<Rightarrow> (nat \<times> stmt) list" where
  "compound_stmts nb = filter is_compound (all_stmts nb)"

section \<open>Threads, processes and asynchronous code\<close>

text \<open>
  Python code is asynchronous or can be suspended through \<^verbatim>\<open>async def\<close>, \<^verbatim>\<open>await\<close> and
  \<^verbatim>\<open>yield\<close>. It creates threads and processes through the modules and functions listed
  below. IPython runs a shell escape \<^verbatim>\<open>!cmd\<close> in a child process and waits for it.
\<close>

fun is_async_stmt :: "nat \<times> stmt \<Rightarrow> bool" where
  "is_async_stmt (i, AsyncDef f ps body) = True"
| "is_async_stmt (i, s) = False"

fun is_suspension :: "nat \<times> expr \<Rightarrow> bool" where
  "is_suspension (i, Await e) = True"
| "is_suspension (i, Yield e) = True"
| "is_suspension (i, e) = False"

definition async_constructs :: "notebook \<Rightarrow> nat list" where
  "async_constructs nb =
     map fst (filter is_async_stmt (all_stmts nb)) @ map fst (filter is_suspension (all_exprs nb))"

definition concurrency_modules :: "string list" where
  "concurrency_modules =
     [''threading'', ''_thread'', ''multiprocessing'', ''concurrent.futures'', ''asyncio'',
      ''subprocess'']"

definition concurrency_imports :: "notebook \<Rightarrow> (nat \<times> string) list" where
  "concurrency_imports nb = filter (\<lambda>(i, m). m \<in> set concurrency_modules) (imported_modules nb)"

definition spawn_names :: "string list" where
  "spawn_names =
     [''Thread'', ''Timer'', ''Process'', ''Pool'', ''Popen'', ''ThreadPoolExecutor'',
      ''ProcessPoolExecutor'', ''start_new_thread'', ''fork'', ''system'', ''popen'',
      ''create_task'', ''ensure_future'', ''run_in_executor'', ''run_until_complete'']"

definition spawn_calls :: "notebook \<Rightarrow> (nat \<times> string) list" where
  "spawn_calls nb = map (\<lambda>(i, f, args, kws). (i, dotted f)) (calls_named spawn_names nb)"

definition child_processes :: "notebook \<Rightarrow> (nat \<times> string) list" where
  "child_processes nb = shell_escapes nb @ spawn_calls nb"

text \<open>The claim that no code creates a thread or a process.\<close>

definition no_thread_or_process :: "notebook \<Rightarrow> bool" where
  "no_thread_or_process nb = (child_processes nb = [] \<and> concurrency_imports nb = [])"

section \<open>Evaluation and helper lemmas\<close>

lemmas mpl_cells =
  mpl_install_clearml_def mpl_install_seaborn_def mpl_task_init_def mpl_scatter_def
  mpl_plot_def mpl_imshow_def mpl_imshow_title_def mpl_savefig_def mpl_seaborn_def

lemmas hf_cells =
  hf_credentials_def hf_log_model_def hf_install_def hf_model_def hf_training_args_def
  hf_tokenizer_def hf_dataset_def hf_tokenize_def hf_collator_def hf_trainer_def hf_train_def

lemmas nb_defs =
  all_exprs_def all_stmts_def top_stmts_def calls_def matplotlib_nb_def transformers_nb_def
  mpl_cells hf_cells

lemmas step_defs =
  steps_def cell_steps_def cells_of_step_def run_calls_def run_names_def display_names_def
  is_pip_install_def

lemmas env_defs =
  magic_env_def set_env_def env_sep_def env_var_def env_val_def strip_def is_space_def

text \<open>Running two statement lists one after the other.\<close>

lemma exec_append:
  "exec ext (ss @ ts) w = (case exec ext ss w of Inl r \<Rightarrow> Inl r | Inr w' \<Rightarrow> exec ext ts w')"
  by (induction ext ss w rule: exec.induct) (auto split: sum.splits prod.splits)

lemma exec_plain:
  "\<not> is_try s \<Longrightarrow>
   exec ext (s # ss) w = (case ext s w of Inl r \<Rightarrow> Inl r | Inr w' \<Rightarrow> exec ext ss w')"
  by (cases s) auto

text \<open>
  Without a \<^verbatim>\<open>try\<close> among the statements, the exception of the first statement that
  raises is the result of the whole list.
\<close>

lemma exec_raises:
  assumes plain: "list_all (\<lambda>s. \<not> is_try s) ss"
    and k: "k < length ss"
    and before: "exec ext (take k ss) w = Inr w'"
    and raised: "ext (ss ! k) w' = Inl r"
  shows "exec ext ss w = Inl r"
proof -
  have split: "ss = take k ss @ ss ! k # drop (Suc k) ss"
    using k by (simp add: id_take_nth_drop)
  have "\<not> is_try (ss ! k)"
    using plain k by (simp add: list_all_length)
  then have "exec ext (ss ! k # drop (Suc k) ss) w' = Inl r"
    using raised by (simp add: exec_plain)
  then have "exec ext (take k ss @ ss ! k # drop (Suc k) ss) w = Inl r"
    using before by (simp add: exec_append)
  then show ?thesis
    using split by simp
qed

text \<open>A run of a notebook is one pass over its statements in cell order.\<close>

lemma run_flat: "run ext nb w = exec ext (concat (map cell_stmts nb)) w"
  by (induction nb arbitrary: w) (auto simp: exec_append split: sum.splits)

lemma enumerate_stmts:
  "map snd (concat (map (\<lambda>(i, c). map (Pair i) (cell_stmts c)) (enumerate n nb)))
     = concat (map cell_stmts nb)"
  by (induction nb arbitrary: n) (simp_all add: comp_def)

lemma top_stmts_flat: "map snd (top_stmts nb) = concat (map cell_stmts nb)"
  by (simp add: top_stmts_def enumerate_stmts)

lemma run_top: "run ext nb w = exec ext (map snd (top_stmts nb)) w"
  by (simp add: run_flat top_stmts_flat)

lemma plain_matplotlib: "list_all (\<lambda>s. \<not> is_try s) (map snd (top_stmts matplotlib_nb))"
  by (simp add: nb_defs)

lemma plain_transformers: "list_all (\<lambda>s. \<not> is_try s) (map snd (top_stmts transformers_nb))"
  by (simp add: nb_defs)

section \<open>The order of the steps\<close>

text \<open>
  Claim C1 as the specification words it does not hold. In the transformers notebook the
  credential cells (cells 2 and 3) run before the install cell (cell 5), so not every
  install cell precedes every credential cell and the steps are not in the order install,
  configure, construct, run, display. The matplotlib notebook makes six plot calls, not
  one, and goes back from displaying to constructing between them.
\<close>

theorem steps_not_in_spec_order:
  "\<not> installs_before_credentials transformers_nb
   \<and> \<not> spec_order transformers_nb
   \<and> \<not> single_run_call matplotlib_nb
   \<and> \<not> spec_order matplotlib_nb"
  by (simp add: installs_before_credentials_def spec_order_def single_run_call_def
      step_defs nb_defs)

text \<open>
  Claim C1, amended to what the notebooks do. The transformers notebook configures the
  credentials (cells 2 and 3), then installs its dependencies (cell 5), then constructs its
  library objects (cells 8 to 20), then makes exactly one run call, \<^verbatim>\<open>trainer.train()\<close>
  (cell 22), and has no print or display call. The matplotlib notebook installs a
  dependency (cell 2), constructs the tracking session (cell 4) and then runs six plot
  cells; each of them constructs its data, makes exactly one plot call and then shows or
  saves the figure. It configures no credentials.
\<close>

theorem notebook_steps:
  "cell_steps transformers_nb =
     [(2, [Configure]), (3, [Configure]), (5, [Install]), (8, [Construct]),
      (10, [Construct]), (12, [Construct]), (14, [Construct]), (16, [Construct]),
      (18, [Construct]), (20, [Construct]), (22, [Run])]
   \<and> run_calls transformers_nb = [(22, ''trainer.train'')]
   \<and> cell_steps matplotlib_nb =
     [(2, [Install]), (4, [Construct]), (6, [Construct, Run, Display]),
      (7, [Construct, Run, Display]), (9, [Construct, Run, Display]),
      (10, [Construct, Run, Display]), (11, [Construct, Run, Display]),
      (13, [Construct, Run, Display])]
   \<and> run_calls matplotlib_nb =
     [(6, ''plt.scatter''), (7, ''plt.plot''), (9, ''plt.imshow''), (10, ''plt.imshow''),
      (11, ''plt.scatter''), (13, ''sns.lineplot'')]"
  by (simp add: step_defs nb_defs)

section \<open>Exceptions\<close>

text \<open>
  Claim C2. Neither notebook contains an exception handler, in any cell and at any depth.
  Whenever a statement of a notebook raises an exception \<open>e\<close> after the statements before
  it have run without one, the run of the notebook ends with that same exception \<open>e\<close> and
  the world as the statement left it: nothing catches, changes or recovers from it.
\<close>

theorem library_exceptions_propagate:
  assumes nb: "nb = matplotlib_nb \<or> nb = transformers_nb"
    and k: "k < length (top_stmts nb)"
    and before: "exec ext (map snd (take k (top_stmts nb))) w = Inr w'"
    and raised: "ext (snd (top_stmts nb ! k)) w' = Inl (e, w'')"
  shows "handlers nb = [] \<and> run ext nb w = Inl (e, w'')"
proof
  show "handlers nb = []"
    using nb by (auto simp: handlers_def nb_defs)
next
  have plain: "list_all (\<lambda>s. \<not> is_try s) (map snd (top_stmts nb))"
    using nb plain_matplotlib plain_transformers by auto
  have "exec ext (map snd (top_stmts nb)) w = Inl (e, w'')"
    using exec_raises [OF plain, of k ext w w' "(e, w'')"] k before raised
    by (simp add: take_map)
  then show "run ext nb w = Inl (e, w'')"
    by (simp add: run_top)
qed

text \<open>
  Claim C2 at a concrete run: with seaborn missing, the sixth statement of the matplotlib
  notebook (\<^verbatim>\<open>import seaborn as sns\<close>, at index 5) raises after five statements have run,
  and the run ends with its \<^verbatim>\<open>ModuleNotFoundError\<close>.
\<close>

theorem library_exceptions_propagate_witness:
  "handlers matplotlib_nb = []
   \<and> run missing_seaborn matplotlib_nb 0 = Inl (''ModuleNotFoundError'', 5)"
  using library_exceptions_propagate
    [of matplotlib_nb 5 missing_seaborn 0 5 "''ModuleNotFoundError''" 5]
  by (simp add: nb_defs)

section \<open>Rebinding of variables\<close>

text \<open>
  Claim C3 as the specification words it does not hold: in each notebook some variable
  bound to a library object is assigned more than once.
\<close>

theorem library_variables_rebound:
  "\<not> assigned_once transformers_nb \<and> \<not> assigned_once matplotlib_nb"
  by (simp add: assigned_once_def lib_vars_def assign_count_def assignments_def nb_defs)

text \<open>
  Claim C3, amended to what the notebooks do. Of the variables bound to library objects,
  \<^verbatim>\<open>model\<close>, \<^verbatim>\<open>training_args\<close>, \<^verbatim>\<open>tokenizer\<close>, \<^verbatim>\<open>data_collator\<close> and \<^verbatim>\<open>trainer\<close> in the
  transformers notebook and \<^verbatim>\<open>task\<close> and \<^verbatim>\<open>fmri\<close> in the matplotlib notebook are assigned
  exactly once. \<^verbatim>\<open>dataset\<close> is assigned twice, first the loaded dataset and then the result
  of \<^verbatim>\<open>dataset.map\<close>. In the matplotlib notebook \<^verbatim>\<open>x\<close> and \<^verbatim>\<open>y\<close> are assigned three times
  and \<^verbatim>\<open>m\<close>, \<^verbatim>\<open>colors\<close> and \<^verbatim>\<open>area\<close> twice: the plot cells bind them again to new arrays.
\<close>

theorem assignment_counts:
  "assign_counts transformers_nb =
     [(''model'', 1), (''training_args'', 1), (''tokenizer'', 1), (''dataset'', 2),
      (''data_collator'', 1), (''trainer'', 1)]
   \<and> values_of ''dataset'' transformers_nb =
     [(14, Call (Name ''load_dataset'') [Str ''rotten_tomatoes''] []),
      (16, Call (Attr (Name ''dataset'') ''map'') [Name ''tokenize_dataset'']
             [(''batched'', Name ''True'')])]
   \<and> assign_counts matplotlib_nb =
     [(''task'', 1), (''m'', 2), (''x'', 3), (''y'', 3), (''colors'', 2), (''area'', 2),
      (''fmri'', 1)]"
  by (simp add: assign_counts_def values_of_def lib_vars_def assign_count_def assignments_def
      nb_defs)

section \<open>Configuration through the environment\<close>

text \<open>
  Claim C4. The line magics of the transformers notebook are six \<^verbatim>\<open>%env\<close> lines, which
  set \<^verbatim>\<open>CLEARML_WEB_HOST\<close>, \<^verbatim>\<open>CLEARML_API_HOST\<close>, \<^verbatim>\<open>CLEARML_FILES_HOST\<close>,
  \<^verbatim>\<open>CLEARML_API_ACCESS_KEY\<close>, \<^verbatim>\<open>CLEARML_API_SECRET_KEY\<close> and \<^verbatim>\<open>CLEARML_LOG_MODEL\<close>. No
  expression of the notebook reads the environment or names one of these variables, and
  the notebook imports no module of the tracking library, so it calls none of its
  functions with explicit arguments. After the magics have run, the environment holds
  each variable with the text written after its \<^verbatim>\<open>=\<close> and is otherwise unchanged. (The
  argument \<^verbatim>\<open>report_to=['clearml']\<close> of \<^verbatim>\<open>TrainingArguments\<close> chooses the integration the
  trainer reports to; it is an argument of the trainer, not a setting of the session.)
\<close>

theorem environment_is_only_configuration:
  "magics transformers_nb =
     [(2, ''env'', ''CLEARML_WEB_HOST=''), (2, ''env'', ''CLEARML_API_HOST=''),
      (2, ''env'', ''CLEARML_FILES_HOST=''), (2, ''env'', ''CLEARML_API_ACCESS_KEY=''),
      (2, ''env'', ''CLEARML_API_SECRET_KEY=''), (3, ''env'', ''CLEARML_LOG_MODEL=True'')]
   \<and> map (\<lambda>(i, v, t). v) (env_settings transformers_nb) =
     [''CLEARML_WEB_HOST'', ''CLEARML_API_HOST'', ''CLEARML_FILES_HOST'',
      ''CLEARML_API_ACCESS_KEY'', ''CLEARML_API_SECRET_KEY'', ''CLEARML_LOG_MODEL'']
   \<and> env_mentions transformers_nb = []
   \<and> map snd (imported_modules transformers_nb) =
     [''transformers'', ''transformers'', ''transformers'', ''datasets'', ''transformers'',
      ''transformers'']
   \<and> run_magics (map snd (top_stmts transformers_nb)) e =
     Inr (e(''CLEARML_WEB_HOST'' \<mapsto> [], ''CLEARML_API_HOST'' \<mapsto> [],
            ''CLEARML_FILES_HOST'' \<mapsto> [], ''CLEARML_API_ACCESS_KEY'' \<mapsto> [],
            ''CLEARML_API_SECRET_KEY'' \<mapsto> [], ''CLEARML_LOG_MODEL'' \<mapsto> ''True''))"
  by (simp add: magics_def env_settings_def env_mentions_def imported_modules_def env_defs
      nb_defs)

text \<open>
  Claim C9. Run as it stands, the credential cell sets the five credential variables to
  the empty string, and the cell after it sets \<^verbatim>\<open>CLEARML_LOG_MODEL\<close> to \<^verbatim>\<open>True\<close>. Both
  cells hold nothing but comments and \<^verbatim>\<open>%env\<close> magics; the lines for \<^verbatim>\<open>CLEARML_TASK\<close> and
  \<^verbatim>\<open>CLEARML_PROJECT\<close> are comments, so these two variables keep the value they had before,
  which is none when they were unset.
\<close>

theorem credentials_set_empty:
  "run_magics hf_credentials e =
     Inr (e(''CLEARML_WEB_HOST'' \<mapsto> [], ''CLEARML_API_HOST'' \<mapsto> [],
            ''CLEARML_FILES_HOST'' \<mapsto> [], ''CLEARML_API_ACCESS_KEY'' \<mapsto> [],
            ''CLEARML_API_SECRET_KEY'' \<mapsto> []))
   \<and> run_magics hf_log_model e = Inr (e(''CLEARML_LOG_MODEL'' \<mapsto> ''True''))
   \<and> list_all comment_or_env (hf_credentials @ hf_log_model)
   \<and> filter (\<lambda>s. s \<in> set [Comment ''# %env CLEARML_TASK='', Comment ''# %env CLEARML_PROJECT=''])
        hf_log_model
      = [Comment ''# %env CLEARML_TASK='', Comment ''# %env CLEARML_PROJECT='']
   \<and> (case run_magics (hf_credentials @ hf_log_model) e of
         Inl x \<Rightarrow> False
       | Inr e' \<Rightarrow>
           e' ''CLEARML_TASK'' = e ''CLEARML_TASK''
           \<and> e' ''CLEARML_PROJECT'' = e ''CLEARML_PROJECT'')
   \<and> (case run_magics (hf_credentials @ hf_log_model) Map.empty of
         Inl x \<Rightarrow> False
       | Inr e' \<Rightarrow> e' ''CLEARML_TASK'' = None \<and> e' ''CLEARML_PROJECT'' = None)"
  by (simp add: hf_credentials_def hf_log_model_def env_defs)

section \<open>Files\<close>

text \<open>
  Claim C5 as the specification words it does not hold: the \<^verbatim>\<open>savefig\<close> call is not the
  only statement by which the repository changes the local filesystem. The cell before
  the tracking session of the matplotlib notebook and the install cell of the
  transformers notebook run \<^verbatim>\<open>pip install\<close>, which writes the packages it installs.
\<close>

theorem savefig_not_only_change:
  "fs_changes matplotlib_nb @ fs_changes transformers_nb
     \<noteq> [(11, FileWrite ''plt.savefig'' [Str ''plot.png''] [])]"
  by (simp add: fs_changes_def file_output_names_def is_pip_install_def nb_defs)

text \<open>
  Claim C5, amended to what the notebooks do. The only call of a file-writing function in
  the repository is \<^verbatim>\<open>plt.savefig("plot.png")\<close> in cell 11 of the matplotlib notebook; it
  has the file name as its one argument and no keyword argument, so format and location
  are the library's defaults. The only other statements that change the local filesystem
  are the four \<^verbatim>\<open>pip install\<close> shell escapes, in cell 2 of the matplotlib notebook and
  cell 5 of the transformers notebook. No other cell asks for a change of the filesystem;
  what the libraries write on their own is not counted.
\<close>

theorem filesystem_changes:
  "fs_changes matplotlib_nb =
     [(2, PackageInstall ''pip install seaborn''),
      (11, FileWrite ''plt.savefig'' [Str ''plot.png''] [])]
   \<and> fs_changes transformers_nb =
     [(5, PackageInstall '' pip install clearml''),
      (5, PackageInstall '' pip install transformers[torch] datasets''),
      (5, PackageInstall ''pip install accelerate -U'')]"
  by (simp add: fs_changes_def file_output_names_def is_pip_install_def nb_defs)

section \<open>The operations of the repository\<close>

text \<open>
  Claim C6 as the specification words it does not hold: in the matplotlib notebook the
  operations are not one library call each. The titled image plot of cell 10 is a call of
  \<^verbatim>\<open>plt.imshow\<close> and a call of \<^verbatim>\<open>plt.title\<close>, and the saved scatter figure of cell 11
  is a call of \<^verbatim>\<open>plt.title\<close>, of \<^verbatim>\<open>plt.scatter\<close> and of \<^verbatim>\<open>plt.savefig\<close>.
\<close>

theorem operations_take_several_calls:
  "\<not> one_call_each matplotlib_nb"
  by (simp add: one_call_each_def calls_per_operation_def operation_calls_def operations_def
      operation_names_def qualifier_names_def callees_def nb_defs)

text \<open>
  Claim C6, amended to what the notebooks do. Every operation of the repository is made
  by calls into imported, unmodified libraries.

  The matplotlib notebook performs, in cell order, a tracking-session initialisation, a
  scatter plot, a line plot, an untitled image plot, a titled image plot, a titled scatter
  plot saved to a file, and a seaborn line plot. Each calls its plotting function once.
  The tracking-session initialisation, the first scatter plot, the untitled image plot
  and the seaborn line plot are that one call; the titled image plot takes a call of
  \<^verbatim>\<open>plt.title\<close> as well, and the saved scatter plot a call of \<^verbatim>\<open>plt.title\<close> and of
  \<^verbatim>\<open>plt.savefig\<close>. The notebook has no function definition and no control flow; the only
  computation of its own is the arithmetic \<^verbatim>\<open>(30 * r)**2\<close> on the marker areas of the two
  scatter plots.

  The transformers notebook performs, in cell order, eight operations: it loads the
  model, builds the training arguments, loads the tokenizer, loads the dataset, tokenizes
  the dataset with \<^verbatim>\<open>dataset.map\<close>, builds the data collator, builds the trainer and runs
  \<^verbatim>\<open>trainer.train()\<close>. Each is one library call. The only code of the repository's own
  is the function \<^verbatim>\<open>tokenize_dataset\<close>, which is handed to \<^verbatim>\<open>dataset.map\<close> and whose body
  is the single call \<^verbatim>\<open>tokenizer(dataset["text"])\<close>; the notebook does no arithmetic.
\<close>

theorem repository_operations:
  \<open>operations matplotlib_nb =
     [(4, ''Task.init''), (6, ''plt.scatter''), (7, ''plt.plot''), (9, ''plt.imshow''),
      (10, ''plt.imshow''), (11, ''plt.scatter''), (13, ''sns.lineplot'')]
   \<and> filter (\<lambda>(i, k). i \<noteq> 7) (calls_per_operation matplotlib_nb) =
     [(4, 1), (6, 1), (9, 1), (10, 2), (11, 3), (13, 1)]
   \<and> operation_calls matplotlib_nb 10 = [''plt.imshow'', ''plt.title'']
   \<and> operation_calls matplotlib_nb 11 = [''plt.title'', ''plt.scatter'', ''plt.savefig'']
   \<and> filter (\<lambda>(i, t). i = 9 \<or> i = 10 \<or> i = 11) (title_calls matplotlib_nb) =
     [(10, [Str ''Image Title'']), (11, [Str ''savefig Image''])]
   \<and> calls_named [''savefig''] matplotlib_nb =
     [(11, Attr (Name ''plt'') ''savefig'', [Str ''plot.png''], [])]
   \<and> call_roots matplotlib_nb = [''Task'', ''np'', ''sns'', ''plt'']
   \<and> imported_names matplotlib_nb = [''plt'', ''np'', ''sns'', ''Task'']
   \<and> compound_stmts matplotlib_nb = []
   \<and> arithmetic matplotlib_nb = [(6, ''**''), (6, ''*''), (11, ''**''), (11, ''*'')]
   \<and> operations transformers_nb =
     [(8, ''AutoModelForSequenceClassification.from_pretrained''), (10, ''TrainingArguments''),
      (12, ''AutoTokenizer.from_pretrained''), (14, ''load_dataset''), (16, ''dataset.map''),
      (18, ''DataCollatorWithPadding''), (20, ''Trainer''), (22, ''trainer.train'')]
   \<and> calls_per_operation transformers_nb =
     [(8, 1), (10, 1), (12, 1), (14, 1), (16, 1), (18, 1), (20, 1), (22, 1)]
   \<and> compound_stmts transformers_nb =
     [(16, FunctionDef ''tokenize_dataset'' [''dataset'']
             [Return (Call (Name ''tokenizer'') [Subscript (Name ''dataset'') (Str ''text'')] [])])]
   \<and> calls_named [''map'', ''tokenize_dataset''] transformers_nb =
     [(16, Attr (Name ''dataset'') ''map'', [Name ''tokenize_dataset''],
       [(''batched'', Name ''True'')])]
   \<and> callees transformers_nb =
     [(8, ''AutoModelForSequenceClassification.from_pretrained''), (10, ''TrainingArguments''),
      (12, ''AutoTokenizer.from_pretrained''), (14, ''load_dataset''), (16, ''tokenizer''),
      (16, ''dataset.map''), (18, ''DataCollatorWithPadding''), (20, ''Trainer''),
      (22, ''trainer.train'')]
   \<and> imported_names transformers_nb =
     [''AutoModelForSequenceClassification'', ''TrainingArguments'', ''AutoTokenizer'',
      ''load_dataset'', ''DataCollatorWithPadding'', ''Trainer'']
   \<and> filter (\<lambda>r. r \<notin> set (imported_names transformers_nb)) (call_roots transformers_nb) =
     [''tokenizer'', ''dataset'', ''trainer'']
   \<and> arithmetic transformers_nb = []\<close>
  by (simp add: operations_def operation_names_def qualifier_names_def operation_calls_def
      calls_per_operation_def callees_def title_calls_def calls_named_def call_roots_def
      imported_names_def compound_stmts_def arithmetic_def nb_defs)

text \<open>
  A slip in the matplotlib notebook, which the operations above leave open. The comment
  of the line plot cell (cell 7) announces a plot with a name, as the comment of the titled
  image plot (cell 10) does, but cell 7 makes no call that names its plot; the calls of
  \<^verbatim>\<open>title\<close> are in cells 10 and 11.
\<close>

lemma line_plot_not_named:
  "cells_announcing_name matplotlib_nb = [7, 10]
   \<and> map fst (title_calls matplotlib_nb) = [10, 11]
   \<and> map snd (filter (\<lambda>(i, n). i = 7) (callees matplotlib_nb)) =
     [''np.linspace'', ''np.sin'', ''plt.plot'', ''plt.show'']"
  by (simp add: cells_announcing_name_def ends_with_def title_calls_def calls_named_def
      callees_def nb_defs)

section \<open>Threads and processes\<close>

text \<open>
  Claim C7 as the specification words it does not hold: both notebooks create processes.
  A shell escape runs its command in a child process, and the matplotlib notebook has one
  shell escape and the transformers notebook three.
\<close>

theorem shell_escapes_create_processes:
  "\<not> no_thread_or_process matplotlib_nb \<and> \<not> no_thread_or_process transformers_nb"
  by (simp add: no_thread_or_process_def child_processes_def shell_escapes_def nb_defs)

text \<open>
  Claim C7, amended to what the notebooks do. No code in either notebook uses
  \<^verbatim>\<open>async def\<close>, \<^verbatim>\<open>await\<close> or \<^verbatim>\<open>yield\<close>, imports a threading, multiprocessing, subprocess
  or asyncio module, or calls a function that creates a thread, a process or a task. The
  only processes the notebooks create are those of their \<^verbatim>\<open>pip install\<close> shell escapes.
  A run is one pass over the statements in cell order, each statement starting in the
  world the one before it left.
\<close>

theorem no_concurrency_but_shell_escapes:
  "async_constructs matplotlib_nb = [] \<and> async_constructs transformers_nb = []
   \<and> concurrency_imports matplotlib_nb = [] \<and> concurrency_imports transformers_nb = []
   \<and> spawn_calls matplotlib_nb = [] \<and> spawn_calls transformers_nb = []
   \<and> child_processes matplotlib_nb = [(2, ''pip install seaborn'')]
   \<and> child_processes transformers_nb =
     [(5, '' pip install clearml''), (5, '' pip install transformers[torch] datasets''),
      (5, ''pip install accelerate -U'')]
   \<and> run ext matplotlib_nb w = exec ext (map snd (top_stmts matplotlib_nb)) w
   \<and> run ext transformers_nb w = exec ext (map snd (top_stmts transformers_nb)) w"
  by (simp add: run_top)
    (simp add: async_constructs_def concurrency_imports_def concurrency_modules_def
      imported_modules_def spawn_calls_def spawn_names_def calls_named_def
      child_processes_def shell_escapes_def nb_defs)

section \<open>The tracking session of the matplotlib notebook\<close>

text \<open>
  Claim C8. In the matplotlib notebook \<^verbatim>\<open>Task.init\<close> is called exactly once, in cell 4,
  and it is the first call of the notebook: every plot call is in a later cell. The
  variable \<^verbatim>\<open>task\<close> is assigned once and occurs in no expression, so no method is called
  on the session and it is passed to no call. The class \<^verbatim>\<open>Task\<close> occurs only in that one
  call.
\<close>

theorem task_init_once_and_unused:
  "callees matplotlib_nb =
    [(4, ''Task.init''),
     (6, ''np.random.rand''), (6, ''np.random.rand''), (6, ''np.random.rand''),
     (6, ''np.random.rand''), (6, ''plt.scatter''), (6, ''plt.show''),
     (7, ''np.linspace''), (7, ''np.sin''), (7, ''plt.plot''), (7, ''plt.show''),
     (9, ''np.eye''), (9, ''plt.imshow''), (9, ''plt.show''),
     (10, ''np.eye''), (10, ''plt.imshow''), (10, ''plt.title''), (10, ''plt.show''),
     (11, ''np.random.rand''), (11, ''np.random.rand''), (11, ''np.random.rand''),
     (11, ''np.random.rand''), (11, ''plt.title''), (11, ''plt.scatter''), (11, ''plt.savefig''),
     (13, ''sns.set''), (13, ''sns.load_dataset''), (13, ''sns.lineplot''), (13, ''plt.show'')]
   \<and> values_of ''task'' matplotlib_nb =
     [(4, Call (Attr (Name ''Task'') ''init'') []
            [(''project_name'', Str ''Colab notebooks''),
             (''task_name'', Str ''Matplotlib example'')])]
   \<and> uses_of ''task'' matplotlib_nb = []
   \<and> uses_of ''Task'' matplotlib_nb = [4]"
  by (simp add: callees_def values_of_def assignments_def uses_of_def names_used_def nb_defs)

end
